theory Spec2Isabelle
  imports Complex_Main
begin

section \<open>Errors raised by the proposal pipeline\<close>

text \<open>
  Every \<^verbatim>\<open>raise\<close> of \<^verbatim>\<open>daps/model.py\<close> and every exception of a builtin or
  library call that the module relies on is a value of this type; a function that can
  raise returns \<open>error + 'a\<close> with \<open>Inl\<close> for the exception.
\<close>

datatype error =
    ValueError string
    \<comment> \<open>\<^verbatim>\<open>raise ValueError("Unrecognized model type " + model_prm)\<close>, with its message\<close>
  | UnpackError
    \<comment> \<open>the ValueError of a tuple assignment with the wrong number of fields\<close>
  | IntLiteralError string
    \<comment> \<open>the ValueError of \<^verbatim>\<open>int(s)\<close>\<close>
  | FloatLiteralError string
    \<comment> \<open>the ValueError of \<^verbatim>\<open>float(s)\<close>\<close>
  | AttributeError
    \<comment> \<open>\<^verbatim>\<open>None.startswith\<close>\<close>
  | IndexError
    \<comment> \<open>a list index out of range\<close>
  | ZeroDivisionError
  | ShapeError
    \<comment> \<open>the error of numpy or of the network library for shapes that do not fit
        (reshape, stack, broadcast, a batch that the network does not take)\<close>
  | ReadError string
    \<comment> \<open>whatever the feature reader raises\<close>

section \<open>Window start offsets\<close>

text \<open>
  \<^verbatim>\<open>np.arange(start, stop, step)\<close> on Python integers: the length is
  \<open>ceil((stop - start) / step)\<close>, never negative, and element \<open>i\<close> is
  \<open>start + i * step\<close>; a zero step raises ZeroDivisionError.
\<close>

definition ceil_div :: "int \<Rightarrow> int \<Rightarrow> int" where
  "ceil_div a b = - ((- a) div b)"

definition arange :: "int \<Rightarrow> int \<Rightarrow> int \<Rightarrow> error + int list" where
  "arange start stop step =
     (if step = 0 then Inl ZeroDivisionError
      else Inr (map (\<lambda>i. start + int i * step)
                    [0 ..< nat (ceil_div (stop - start) step)]))"

text \<open>Line 136: \<^verbatim>\<open>f_init_array = np.arange(0, l_size - T, stride)\<close>.\<close>

definition f_init_array :: "int \<Rightarrow> int \<Rightarrow> int \<Rightarrow> error + int list" where
  "f_init_array l_size T stride = arange 0 (l_size - T) stride"

section \<open>Python strings and numbers\<close>

text \<open>
  The builtins that \<^verbatim>\<open>build_model\<close> and \<^verbatim>\<open>retrieve_proposals\<close> apply to the
  configuration string: \<^verbatim>\<open>str.startswith\<close>, \<^verbatim>\<open>str.split\<close> (with and without a
  maximum number of splits), indexing of the resulting list, \<^verbatim>\<open>int\<close> and
  \<^verbatim>\<open>float\<close>.
\<close>

definition startswith :: "string \<Rightarrow> string \<Rightarrow> bool" where
  "startswith s p = (take (length p) s = p)"

text \<open>\<^verbatim>\<open>s.split(c, 1)\<close>: cut at the first occurrence of the separator only.\<close>

definition split1 :: "char \<Rightarrow> string \<Rightarrow> string list" where
  "split1 c s =
     (if c \<in> set s then [takeWhile (\<lambda>x. x \<noteq> c) s, tl (dropWhile (\<lambda>x. x \<noteq> c) s)]
      else [s])"

text \<open>\<^verbatim>\<open>s.split(c)\<close>: cut at every occurrence; the result is never empty.\<close>

fun split_on :: "char \<Rightarrow> string \<Rightarrow> string list" where
  "split_on c [] = [[]]"
| "split_on c (x # xs) =
     (if x = c then [] # split_on c xs
      else (case split_on c xs of
              [] \<Rightarrow> [[x]]
            | w # ws \<Rightarrow> (x # w) # ws))"

text \<open>\<^verbatim>\<open>xs[1]\<close>.\<close>

definition index1 :: "'a list \<Rightarrow> error + 'a" where
  "index1 xs = (case xs of _ # y # _ \<Rightarrow> Inr y | _ \<Rightarrow> Inl IndexError)"

definition is_space :: "char \<Rightarrow> bool" where
  "is_space c = (c \<in> set [CHR '' '', CHR 0x09, CHR 0x0A, CHR 0x0B, CHR 0x0C, CHR 0x0D])"

definition is_digit :: "char \<Rightarrow> bool" where
  "is_digit c = (c \<in> set ''0123456789'')"

definition py_strip :: "string \<Rightarrow> string" where
  "py_strip s = rev (dropWhile is_space (rev (dropWhile is_space s)))"

definition digits_val :: "string \<Rightarrow> nat" where
  "digits_val ds = foldl (\<lambda>acc c. 10 * acc + (of_char c - 48)) 0 ds"

text \<open>An optional sign in front of the rest of a literal.\<close>

definition split_sign :: "string \<Rightarrow> int \<times> string" where
  "split_sign t =
     (case t of
        [] \<Rightarrow> (1, [])
      | c # r \<Rightarrow> if c = CHR ''-'' then (- 1, r) else if c = CHR ''+'' then (1, r) else (1, t))"

text \<open>
  \<^verbatim>\<open>int(s)\<close> on a string: surrounding white space is dropped, then an optional sign and
  at least one decimal digit must make up the whole string.
\<close>

definition py_int :: "string \<Rightarrow> error + int" where
  "py_int s =
     (let (sg, body) = split_sign (py_strip s)
      in if body \<noteq> [] \<and> list_all is_digit body then Inr (sg * int (digits_val body))
         else Inl (IntLiteralError s))"

text \<open>
  A Python float is a finite number, an infinity or a NaN. Finite values are kept as
  exact reals: rounding to 53 bits and overflow are outside this model.
\<close>

datatype pyfloat = Fin real | PosInf | NegInf | NaN

text \<open>Truth value of a float in a condition: everything but zero.\<close>

definition truthy :: "pyfloat \<Rightarrow> bool" where
  "truthy x = (x \<noteq> Fin 0)"

definition lower :: "string \<Rightarrow> string" where
  "lower s =
     map (\<lambda>c. case map_of (zip ''ABCDEFGHIJKLMNOPQRSTUVWXYZ'' ''abcdefghijklmnopqrstuvwxyz'') c of
                 None \<Rightarrow> c | Some d \<Rightarrow> d) s"

text \<open>The exponent part of a float literal: nothing, or \<open>e\<close> with a signed integer.\<close>

definition exponent :: "string \<Rightarrow> int option" where
  "exponent r =
     (case r of
        [] \<Rightarrow> Some 0
      | c # ds \<Rightarrow>
          if c = CHR ''e'' \<or> c = CHR ''E'' then
            (let (sg, body) = split_sign ds
             in if body \<noteq> [] \<and> list_all is_digit body then Some (sg * int (digits_val body))
                else None)
          else None)"

definition scale10 :: "real \<Rightarrow> int \<Rightarrow> real" where
  "scale10 m e = (if 0 \<le> e then m * 10 ^ nat e else m / 10 ^ nat (- e))"

text \<open>
  \<^verbatim>\<open>float(s)\<close> on a string: white space is dropped, then an optional sign, then one of
  \<open>inf\<close>, \<open>infinity\<close>, \<open>nan\<close> in any case, or digits with an optional fraction and an
  optional exponent, with at least one digit before the exponent.
\<close>

definition py_float :: "string \<Rightarrow> error + pyfloat" where
  "py_float s =
     (let (sg, body) = split_sign (py_strip s);
          ip = takeWhile is_digit body;
          r1 = dropWhile is_digit body;
          fp = (case r1 of [] \<Rightarrow> [] | c # r \<Rightarrow> if c = CHR ''.'' then takeWhile is_digit r else []);
          r2 = (case r1 of [] \<Rightarrow> [] | c # r \<Rightarrow> if c = CHR ''.'' then dropWhile is_digit r else r1)
      in if lower body = ''inf'' \<or> lower body = ''infinity''
           then Inr (if sg < 0 then NegInf else PosInf)
         else if lower body = ''nan'' then Inr NaN
         else if ip = [] \<and> fp = [] then Inl (FloatLiteralError s)
         else (case exponent r2 of
                 None \<Rightarrow> Inl (FloatLiteralError s)
               | Some e \<Rightarrow>
                   Inr (Fin (of_int sg *
                             scale10 (real (digits_val (ip @ fp)) / 10 ^ length fp) e))))"

section \<open>The layer graph\<close>

text \<open>
  The networks are lasagne layer graphs. A layer is described by its constructor, the
  layer it is stacked on and the arguments that decide what it computes. The
  nonlinearity of a dense layer is \<open>None\<close> for a linear layer, as in lasagne; a dense
  layer to which the module passes no nonlinearity has the default of
  \<^verbatim>\<open>lasagne.layers.DenseLayer\<close>, which is the rectifier.
\<close>

datatype nonlinearity = Rectify | Tanh | Sigmoid

text \<open>What the nonlinearity of a layer does to one value.\<close>

definition apply_nonlinearity :: "nonlinearity option \<Rightarrow> real \<Rightarrow> real" where
  "apply_nonlinearity nonlin x =
     (case nonlin of
        None \<Rightarrow> x
      | Some Rectify \<Rightarrow> max 0 x
      | Some Tanh \<Rightarrow> tanh x
      | Some Sigmoid \<Rightarrow> 1 / (1 + exp (- x)))"

datatype 'v layer =
    InputLayer "int option list" "'v option"
    \<comment> \<open>shape (\<open>None\<close> is the batch axis) and the input variable\<close>
  | DropoutLayer "'v layer" pyfloat
    \<comment> \<open>\<^verbatim>\<open>lasagne.layers.dropout(incoming, p=...)\<close>\<close>
  | DenseLayer "'v layer" int "nonlinearity option"
    \<comment> \<open>incoming layer, number of units, nonlinearity\<close>
  | LSTMLayer "'v layer" int real nonlinearity real
    \<comment> \<open>incoming layer, units, \<open>grad_clipping\<close>, nonlinearity, constant bias of the forget gate\<close>
  | SliceLayer "'v layer" int int
    \<comment> \<open>incoming layer, indices, axis\<close>

text \<open>Lines 11 to 28.\<close>

definition build_lstm ::
  "'v option \<Rightarrow> int \<Rightarrow> int \<Rightarrow> int \<Rightarrow> int \<Rightarrow> real \<Rightarrow> real \<Rightarrow> 'v layer" where
  "build_lstm input_var seq_length depth width input_size grad_clip forget_bias =
     (let network = InputLayer [None, Some seq_length, Some input_size] input_var;
          network = ((\<lambda>n. LSTMLayer n width grad_clip Tanh forget_bias) ^^ nat depth) network
      in SliceLayer network (- 1) 1)"

text \<open>Lines 31 to 49. The loop over \<^verbatim>\<open>range(depth)\<close> runs \<open>nat depth\<close> times.\<close>

definition build_mlp ::
  "'v option \<Rightarrow> int \<Rightarrow> int \<Rightarrow> pyfloat \<Rightarrow> pyfloat \<Rightarrow> int \<Rightarrow> 'v layer" where
  "build_mlp input_var depth width drop_input drop_hidden input_size =
     (let network = InputLayer [None, Some input_size] input_var;
          network = (if truthy drop_input then DropoutLayer network drop_input else network);
          hidden = (\<lambda>n. let n = DenseLayer n width (Some Rectify)
                         in if truthy drop_hidden then DropoutLayer n drop_hidden else n)
      in (hidden ^^ nat depth) network)"

text \<open>The default of \<^verbatim>\<open>drop_hidden\<close> in the signature of \<^verbatim>\<open>build_mlp\<close>.\<close>

definition drop_hidden_default :: pyfloat where
  "drop_hidden_default = Fin (5 / 10)"

text \<open>
  Lines 70 to 74: the two output layers on the shared network. Line 72 passes no
  nonlinearity to the localization layer, so that layer has the rectifier.
\<close>

definition output_layers :: "'v layer \<Rightarrow> string \<Rightarrow> error + 'v layer \<times> 'v layer" where
  "output_layers network n_outputs =
     (case py_int n_outputs of
        Inl e \<Rightarrow> Inl e
      | Inr n \<Rightarrow>
          Inr (DenseLayer network (n * 2) (Some Rectify), DenseLayer network n (Some Sigmoid)))"

text \<open>
  Lines 52 to 74. The call of \<^verbatim>\<open>build_mlp\<close> on line 59 passes the depth, the width and
  \<^verbatim>\<open>drop_in\<close>; \<^verbatim>\<open>drop_hid\<close> is unpacked and not passed, so \<^verbatim>\<open>drop_hidden\<close> keeps
  its default. The arguments are evaluated from left to right, and \<^verbatim>\<open>int(n_outputs)\<close>
  only after the network is built.
\<close>

definition build_model ::
  "string option \<Rightarrow> 'v option \<Rightarrow> int \<Rightarrow> real \<Rightarrow> real \<Rightarrow> error + 'v layer \<times> 'v layer" where
  "build_model model_prm input_var input_size grad_clip forget_bias =
     (case model_prm of
        None \<Rightarrow> Inl AttributeError
      | Some prm \<Rightarrow>
          if startswith prm ''mlp:'' then
            (case index1 (split1 CHR '':'' prm) of
               Inl e \<Rightarrow> Inl e
             | Inr rest \<Rightarrow>
                 (case split_on CHR '','' rest of
                    [n_outputs, depth, width, drop_in, drop_hid] \<Rightarrow>
                      (case py_int depth of
                         Inl e \<Rightarrow> Inl e
                       | Inr d \<Rightarrow>
                           (case py_int width of
                              Inl e \<Rightarrow> Inl e
                            | Inr w \<Rightarrow>
                                (case py_float drop_in of
                                   Inl e \<Rightarrow> Inl e
                                 | Inr di \<Rightarrow>
                                     output_layers
                                       (build_mlp input_var d w di drop_hidden_default input_size)
                                       n_outputs)))
                  | _ \<Rightarrow> Inl UnpackError))
          else if startswith prm ''lstm:'' then
            (case index1 (split1 CHR '':'' prm) of
               Inl e \<Rightarrow> Inl e
             | Inr rest \<Rightarrow>
                 (case split_on CHR '','' rest of
                    [n_outputs, seq_length, width, depth] \<Rightarrow>
                      (case py_int seq_length of
                         Inl e \<Rightarrow> Inl e
                       | Inr sl \<Rightarrow>
                           (case py_int depth of
                              Inl e \<Rightarrow> Inl e
                            | Inr d \<Rightarrow>
                                (case py_int width of
                                   Inl e \<Rightarrow> Inl e
                                 | Inr w \<Rightarrow>
                                     output_layers
                                       (build_lstm input_var sl d w input_size grad_clip forget_bias)
                                       n_outputs)))
                  | _ \<Rightarrow> Inl UnpackError))
          else Inl (ValueError (''Unrecognized model type '' @ prm)))"

section \<open>The weighted loss\<close>

text \<open>
  Arithmetic on floats with the special values of IEEE 754: an infinity times zero and
  the sum of opposite infinities are NaN, a NaN operand gives NaN, every comparison with
  a NaN is false. Signed zeros are not distinguished.
\<close>

fun fneg :: "pyfloat \<Rightarrow> pyfloat" where
  "fneg (Fin x) = Fin (- x)"
| "fneg PosInf = NegInf"
| "fneg NegInf = PosInf"
| "fneg NaN = NaN"

fun fadd :: "pyfloat \<Rightarrow> pyfloat \<Rightarrow> pyfloat" where
  "fadd NaN _ = NaN"
| "fadd _ NaN = NaN"
| "fadd (Fin x) (Fin y) = Fin (x + y)"
| "fadd PosInf NegInf = NaN"
| "fadd NegInf PosInf = NaN"
| "fadd PosInf _ = PosInf"
| "fadd _ PosInf = PosInf"
| "fadd NegInf _ = NegInf"
| "fadd _ NegInf = NegInf"

definition fsub :: "pyfloat \<Rightarrow> pyfloat \<Rightarrow> pyfloat" where
  "fsub a b = fadd a (fneg b)"

text \<open>The sign of a float that is not a NaN, as \<open>-1\<close>, \<open>0\<close> or \<open>1\<close>.\<close>

fun fsign :: "pyfloat \<Rightarrow> int" where
  "fsign (Fin x) = (if x < 0 then - 1 else if x = 0 then 0 else 1)"
| "fsign PosInf = 1"
| "fsign NegInf = - 1"
| "fsign NaN = 0"

fun fmul :: "pyfloat \<Rightarrow> pyfloat \<Rightarrow> pyfloat" where
  "fmul NaN _ = NaN"
| "fmul _ NaN = NaN"
| "fmul (Fin x) (Fin y) = Fin (x * y)"
| "fmul a b =
     (if fsign a * fsign b = 0 then NaN
      else if 0 < fsign a * fsign b then PosInf else NegInf)"

fun flt :: "pyfloat \<Rightarrow> pyfloat \<Rightarrow> bool" where
  "flt NaN _ = False"
| "flt _ NaN = False"
| "flt (Fin x) (Fin y) = (x < y)"
| "flt NegInf b = (b \<noteq> NegInf)"
| "flt a PosInf = (a \<noteq> PosInf)"
| "flt _ _ = False"

text \<open>The logarithm: minus infinity at zero, NaN below it.\<close>

fun flog :: "pyfloat \<Rightarrow> pyfloat" where
  "flog (Fin x) = (if 0 < x then Fin (ln x) else if x = 0 then NegInf else NaN)"
| "flog PosInf = PosInf"
| "flog NegInf = NaN"
| "flog NaN = NaN"

text \<open>
  \<^verbatim>\<open>T.clip(x, min, max)\<close>: the lower bound where \<open>x\<close> is below it, the upper bound
  where \<open>x\<close> is above it, \<open>x\<close> itself otherwise (also for a NaN).
\<close>

definition fclip :: "pyfloat \<Rightarrow> pyfloat \<Rightarrow> pyfloat \<Rightarrow> pyfloat" where
  "fclip x lo hi = (if flt x lo then lo else if flt hi x then hi else x)"

text \<open>Line 8: \<^verbatim>\<open>EPSILON = 10e-8\<close>.\<close>

definition EPSILON :: pyfloat where
  "EPSILON = Fin (10 / 10 ^ 8)"

text \<open>
  Lines 161 to 182. The tensors are vectors of the same length (the operations are
  elementwise; two lengths that differ raise when the expression is evaluated), the
  weights are scalars.
\<close>

definition weigthed_binary_crossentropy ::
  "pyfloat list \<Rightarrow> pyfloat list \<Rightarrow> pyfloat \<Rightarrow> pyfloat \<Rightarrow> error + pyfloat list" where
  "weigthed_binary_crossentropy predictions targets w0 w1 =
     (if length predictions \<noteq> length targets then Inl ShapeError
      else
        let pos_log = map (\<lambda>p. flog (fclip p EPSILON PosInf)) predictions;
            neg_log = map (\<lambda>p. flog (fclip (fsub (Fin 1) p) EPSILON PosInf)) predictions
        in Inr (map fneg
                 (map2 fadd
                    (map2 fmul (map (fmul w1) targets) pos_log)
                    (map2 fmul (map (\<lambda>t. fmul w0 (fsub (Fin 1) t)) targets) neg_log))))"

definition is_fin :: "pyfloat \<Rightarrow> bool" where
  "is_fin x = (case x of Fin _ \<Rightarrow> True | _ \<Rightarrow> False)"

definition in_unit_interval :: "pyfloat \<Rightarrow> bool" where
  "in_unit_interval x = (case x of Fin v \<Rightarrow> 0 \<le> v \<and> v \<le> 1 | _ \<Rightarrow> False)"

definition is_binary :: "pyfloat \<Rightarrow> bool" where
  "is_binary x = (x = Fin 0 \<or> x = Fin 1)"

definition bounded_by :: "real \<Rightarrow> pyfloat \<Rightarrow> bool" where
  "bounded_by c x = (case x of Fin v \<Rightarrow> \<bar>v\<bar> \<le> c | _ \<Rightarrow> False)"

section \<open>The feature reader\<close>

text \<open>
  Modelled from the spec: \<^verbatim>\<open>daps.c3d_encoder.Feature\<close> is not part of the module. The
  spec describes it as a reader that opens a feature store and, for a video and a list
  of window start offsets, returns one pooled feature vector per offset, each covering
  a fixed duration, batched for one call; an empty list of offsets gives an empty batch.
  A reader is its feature dimension (the second axis of every batch) and the read of
  one window, which may raise; the batch read stops at the first read that raises.
  The feature vectors themselves are opaque values of type \<open>'f\<close>.
\<close>

record 'f feature =
  feat_dim :: nat
  read_feat :: "string \<Rightarrow> int \<Rightarrow> int \<Rightarrow> error + 'f"

fun read_feat_batch_from_video ::
  "'f feature \<Rightarrow> string \<Rightarrow> int list \<Rightarrow> int \<Rightarrow> error + 'f list" where
  "read_feat_batch_from_video fobj video_name [] duration = Inr []"
| "read_feat_batch_from_video fobj video_name (f_init # rest) duration =
     (case read_feat fobj video_name f_init duration of
        Inl e \<Rightarrow> Inl e
      | Inr x \<Rightarrow>
          (case read_feat_batch_from_video fobj video_name rest duration of
             Inl e \<Rightarrow> Inl e
           | Inr xs \<Rightarrow> Inr (x # xs)))"

text \<open>What happens to the handle of the feature store, in order.\<close>

datatype io_event = OpenInstance | ReadBatch string "int list" int | CloseInstance

definition handle_open :: "io_event list \<Rightarrow> bool" where
  "handle_open events =
     foldl (\<lambda>opened ev. case ev of OpenInstance \<Rightarrow> True
                                   | CloseInstance \<Rightarrow> False
                                   | ReadBatch _ _ _ \<Rightarrow> opened) False events"

section \<open>Arrays\<close>

text \<open>
  \<^verbatim>\<open>a.reshape(dims)\<close> succeeds when the product of the dimensions is the size of the
  array. numpy takes every negative dimension as the one to infer: more than one is
  refused, and one is inferred when the product of the others is not zero and divides
  the size.
\<close>

definition np_reshape_ok :: "nat \<Rightarrow> int list \<Rightarrow> bool" where
  "np_reshape_ok sz dims =
     (let unknown = filter (\<lambda>d. d < 0) dims;
          known = prod_list (filter (\<lambda>d. 0 \<le> d) dims)
      in if length unknown > 1 then False
         else if length unknown = 1 then known \<noteq> 0 \<and> int sz mod known = 0
         else known = int sz)"

text \<open>
  A batch of feature vectors with its shape: the vectors, one for each window, and the
  shape of one of them (the axes after the first). The vectors are opaque and a reshape
  keeps their order, so a reshape changes the shape only.
\<close>

record 'f batch =
  sample_shape :: "nat list"
  entries :: "'f list"

text \<open>
  Lines 139 to 144: the reshape for a recurrent network of the matrix that was read,
  given by its second axis and its rows. The division is Python 2's integer division.
  Without the reshape the batch keeps the shape of the matrix.
\<close>

definition lstm_reshape :: "string option \<Rightarrow> nat \<Rightarrow> 'f list \<Rightarrow> error + 'f batch" where
  "lstm_reshape model_prm n_feat feat_stack =
     (case model_prm of
        None \<Rightarrow> Inl AttributeError
      | Some prm \<Rightarrow>
          if startswith prm ''lstm:'' then
            (case index1 (split1 CHR '':'' prm) of
               Inl e \<Rightarrow> Inl e
             | Inr rest \<Rightarrow>
                 (case split_on CHR '','' rest of
                    [n_outputs, seq_length, width, depth] \<Rightarrow>
                      (case py_int seq_length of
                         Inl e \<Rightarrow> Inl e
                       | Inr sl \<Rightarrow>
                           if sl = 0 then Inl ZeroDivisionError
                           else if np_reshape_ok (length feat_stack * n_feat)
                                     [int (length feat_stack), sl, int n_feat div sl]
                             then Inr \<lparr>sample_shape = [nat sl, nat (int n_feat div sl)],
                                       entries = feat_stack\<rparr>
                           else Inl ShapeError)
                  | _ \<Rightarrow> Inl UnpackError))
          else Inr \<lparr>sample_shape = [n_feat], entries = feat_stack\<rparr>)"

text \<open>
  An array of shape \<open>(N, 2)\<close> is a list of \<open>N\<close> pairs. \<^verbatim>\<open>a.reshape((-1, 2))\<close> of a
  flat array needs an even size.
\<close>

fun pairs :: "'a list \<Rightarrow> ('a \<times> 'a) list" where
  "pairs (a # b # xs) = (a, b) # pairs xs"
| "pairs _ = []"

definition reshape_pairs :: "'a list \<Rightarrow> error + ('a \<times> 'a) list" where
  "reshape_pairs xs = (if even (length xs) then Inr (pairs xs) else Inl ShapeError)"

text \<open>A matrix with its shape, which an empty batch keeps.\<close>

record 'a ndarray2 =
  shape0 :: nat
  shape1 :: nat
  rows :: "'a list list"

definition flatten :: "'a ndarray2 \<Rightarrow> 'a list" where
  "flatten a = concat (rows a)"

text \<open>\<^verbatim>\<open>np.stack((a, b))\<close> of two vectors: they must have the same length.\<close>

definition np_stack2 :: "'a list \<Rightarrow> 'a list \<Rightarrow> error + 'a list \<times> 'a list" where
  "np_stack2 a b = (if length a = length b then Inr (a, b) else Inl ShapeError)"

text \<open>\<^verbatim>\<open>.repeat(n, axis=-1)\<close> on the two stacked rows, and \<^verbatim>\<open>.T\<close>.\<close>

definition np_repeat :: "nat \<Rightarrow> 'a list \<times> 'a list \<Rightarrow> 'a list \<times> 'a list" where
  "np_repeat n ab = (concat (map (replicate n) (fst ab)), concat (map (replicate n) (snd ab)))"

definition transpose2 :: "'a list \<times> 'a list \<Rightarrow> ('a \<times> 'a) list" where
  "transpose2 ab = zip (fst ab) (snd ab)"

text \<open>
  \<^verbatim>\<open>np.maximum\<close> and \<^verbatim>\<open>np.minimum\<close> on one pair of values, and \<^verbatim>\<open>x.clip(lo, hi)\<close>,
  which is the minimum with \<open>hi\<close> of the maximum with \<open>lo\<close>. A NaN operand gives a
  NaN, so the clip leaves a NaN as it is.
\<close>

definition fmax :: "pyfloat \<Rightarrow> pyfloat \<Rightarrow> pyfloat" where
  "fmax a b = (if a = NaN \<or> b = NaN then NaN else if flt a b then b else a)"

definition fmin :: "pyfloat \<Rightarrow> pyfloat \<Rightarrow> pyfloat" where
  "fmin a b = (if a = NaN \<or> b = NaN then NaN else if flt b a then b else a)"

definition np_clip :: "pyfloat \<Rightarrow> pyfloat \<Rightarrow> pyfloat \<Rightarrow> pyfloat" where
  "np_clip lo hi x = fmin (fmax x lo) hi"

text \<open>
  The sum of two arrays of shapes \<open>(M, 2)\<close> and \<open>(N, 2)\<close>: elementwise when \<open>M = N\<close>,
  broadcast when one of them has a single row, an error otherwise.
\<close>

definition add_pair :: "pyfloat \<times> pyfloat \<Rightarrow> pyfloat \<times> pyfloat \<Rightarrow> pyfloat \<times> pyfloat" where
  "add_pair p q = (fadd (fst p) (fst q), fadd (snd p) (snd q))"

definition np_add ::
  "(pyfloat \<times> pyfloat) list \<Rightarrow> (pyfloat \<times> pyfloat) list \<Rightarrow>
     error + (pyfloat \<times> pyfloat) list" where
  "np_add a b =
     (if length a = length b then Inr (map2 add_pair a b)
      else if length a = 1 then Inr (map (add_pair (hd a)) b)
      else if length b = 1 then Inr (map (\<lambda>p. add_pair p (hd b)) a)
      else Inl ShapeError)"

text \<open>
  \<^verbatim>\<open>.astype(int)\<close>: truncation towards zero of a finite value. numpy leaves the
  integer that a NaN or an infinity is cast to to the platform; it is \<open>None\<close> here.
\<close>

definition trunc :: "real \<Rightarrow> int" where
  "trunc x = (if 0 \<le> x then \<lfloor>x\<rfloor> else \<lceil>x\<rceil>)"

definition astype_int :: "pyfloat \<Rightarrow> int option" where
  "astype_int x = (case x of Fin v \<Rightarrow> Some (trunc v) | _ \<Rightarrow> None)"

text \<open>
  Modelled from the spec: \<^verbatim>\<open>daps.utils.segment.format\<close> is not part of the module. The
  spec treats it as an opaque function that converts each pair of the array from one
  segment convention to another; the conversion of one pair is the parameter \<open>conv\<close>.
\<close>

definition segment_format ::
  "(pyfloat \<times> pyfloat \<Rightarrow> pyfloat \<times> pyfloat) \<Rightarrow> (pyfloat \<times> pyfloat) list \<Rightarrow>
     (pyfloat \<times> pyfloat) list" where
  "segment_format conv X = map conv X"

section \<open>The forward pass and the proposals\<close>

text \<open>
  The pair of output layers with its weights, as what its evaluation with dropout off
  does to a batch. \<open>accepts\<close> holds of the shapes of the batches that the layers
  take; for any other batch the evaluation raises. Which shapes those are is decided by
  the layers under the output layers and by the library, not by the module. Every
  vector of a batch that is taken is mapped on its own: the localization layer gives
  \<open>2 * n_outputs\<close> values for it and the confidence layer \<open>n_outputs\<close> values (the
  widths that \<^const>\<open>output_layers\<close> gives the two layers), and each value is a float,
  which may be an infinity or a NaN.
\<close>

record 'f network =
  n_outputs :: nat
  accepts :: "nat list \<Rightarrow> bool"
  localization :: "'f \<Rightarrow> nat \<Rightarrow> pyfloat"
  conf :: "'f \<Rightarrow> nat \<Rightarrow> pyfloat"

text \<open>Lines 77 to 83.\<close>

definition forward_pass ::
  "'f network \<Rightarrow> 'f batch \<Rightarrow> error + (pyfloat \<times> pyfloat) list \<times> pyfloat ndarray2" where
  "forward_pass net input_data =
     (if \<not> accepts net (length (entries input_data) # sample_shape input_data)
        then Inl ShapeError
      else
        let l_pred_var = map (\<lambda>x. map (localization net x) [0 ..< 2 * n_outputs net])
                             (entries input_data);
            y_pred_var = \<lparr>shape0 = length (entries input_data), shape1 = n_outputs net,
                          rows = map (\<lambda>x. map (conf net x) [0 ..< n_outputs net])
                                     (entries input_data)\<rparr>
        in case reshape_pairs (concat l_pred_var) of
             Inl e \<Rightarrow> Inl e
           | Inr loc \<Rightarrow> Inr (loc, y_pred_var))"

text \<open>Lines 150 to 158.\<close>

definition generate_proposals ::
  "(pyfloat \<times> pyfloat \<Rightarrow> pyfloat \<times> pyfloat) \<Rightarrow> 'f network \<Rightarrow> int list \<Rightarrow> 'f batch \<Rightarrow> int \<Rightarrow>
     error + (int option \<times> int option) list \<times> pyfloat list" where
  "generate_proposals conv net f_init feat_stack T =
     (case forward_pass net feat_stack of
        Inl e \<Rightarrow> Inl e
      | Inr (loc, score) \<Rightarrow>
          let n_proposals = shape1 score;
              n_segments = shape0 score;
              score_flat = flatten score
          in (case np_stack2 (map (\<lambda>i. Fin (real_of_int i)) f_init)
                             (replicate n_segments (Fin 0)) of
                Inl e \<Rightarrow> Inl e
              | Inr stacked \<Rightarrow>
                  let map_array = transpose2 (np_repeat n_proposals stacked);
                      scaled = map (\<lambda>(a, b). (fmul (np_clip (Fin 0) (Fin 1) a) (Fin (real_of_int T)),
                                               fmul (np_clip (Fin 0) (Fin 1) b) (Fin (real_of_int T))))
                                   loc
                  in (case np_add map_array scaled of
                        Inl e \<Rightarrow> Inl e
                      | Inr coords \<Rightarrow>
                          Inr (map (\<lambda>(a, b). (astype_int a, astype_int b))
                                   (segment_format conv coords),
                               score_flat))))"

text \<open>
  Lines 103 to 158. \<open>Feature\<close> stands for the constructor of the reader (the file
  system it reads from is part of it). The result is the list of handle events up to the
  point where the function returns or raises, and the value returned or the exception.
\<close>

definition retrieve_proposals ::
  "(pyfloat \<times> pyfloat \<Rightarrow> pyfloat \<times> pyfloat) \<Rightarrow>
   (string option \<Rightarrow> int \<Rightarrow> int \<Rightarrow> string \<Rightarrow> 'f feature) \<Rightarrow>
   string \<Rightarrow> int \<Rightarrow> 'f network \<Rightarrow> int \<Rightarrow> int \<Rightarrow> int \<Rightarrow> int \<Rightarrow> string \<Rightarrow>
   string option \<Rightarrow> string option \<Rightarrow>
   io_event list \<times> (error + (int option \<times> int option) list \<times> pyfloat list)" where
  "retrieve_proposals conv Feature video_name l_size net T stride c3d_size c3d_stride
       pool_type hdf5_dataset model_prm =
     (let fobj = Feature hdf5_dataset c3d_size c3d_stride pool_type
      in case f_init_array l_size T stride of
           Inl e \<Rightarrow> ([OpenInstance], Inl e)
         | Inr f_init \<Rightarrow>
             (case read_feat_batch_from_video fobj video_name f_init T of
                Inl e \<Rightarrow> ([OpenInstance, ReadBatch video_name f_init T], Inl e)
              | Inr feat_stack \<Rightarrow>
                  (case lstm_reshape model_prm (feat_dim fobj) feat_stack of
                     Inl e \<Rightarrow> ([OpenInstance, ReadBatch video_name f_init T], Inl e)
                   | Inr feat_stack \<Rightarrow>
                       ([OpenInstance, ReadBatch video_name f_init T, CloseInstance],
                        generate_proposals conv net f_init feat_stack T))))"

text \<open>
  The coordinates that line 156 hands to the segment conversion for index \<open>k\<close> of the
  flat output, written out: \<open>k div n_outputs\<close> is the window and \<open>k mod n_outputs\<close> the
  proposal within it. This is the statement that \<^const>\<open>generate_proposals\<close> is compared
  with, not part of the module.
\<close>

definition window_coords ::
  "'f network \<Rightarrow> int list \<Rightarrow> 'f list \<Rightarrow> int \<Rightarrow> nat \<Rightarrow> pyfloat \<times> pyfloat" where
  "window_coords net f_init feats T k =
     (fadd (Fin (real_of_int (f_init ! (k div n_outputs net))))
        (fmul (np_clip (Fin 0) (Fin 1)
                 (localization net (feats ! (k div n_outputs net)) (2 * (k mod n_outputs net))))
              (Fin (real_of_int T))),
      fadd (Fin 0)
        (fmul (np_clip (Fin 0) (Fin 1)
                 (localization net (feats ! (k div n_outputs net))
                    (2 * (k mod n_outputs net) + 1)))
              (Fin (real_of_int T))))"

section \<open>A small run\<close>

text \<open>
  A reader with two features per window that always succeeds and one whose reads
  raise. A feed-forward network for two features with two proposals per window, whose
  raw localization values are \<open>-1, 0, 1, 2\<close>: below, at and above the bounds of the
  clipping; the same network with a NaN as its first raw value; and a recurrent network
  for sequences of three vectors of two features.
\<close>

definition example_feature :: "string option \<Rightarrow> int \<Rightarrow> int \<Rightarrow> string \<Rightarrow> real feature" where
  "example_feature filename t_size t_stride pool_type =
     \<lparr>feat_dim = 2, read_feat = (\<lambda>video_name f_init duration. Inr (real_of_int f_init))\<rparr>"

definition failing_feature :: "string option \<Rightarrow> int \<Rightarrow> int \<Rightarrow> string \<Rightarrow> real feature" where
  "failing_feature filename t_size t_stride pool_type =
     \<lparr>feat_dim = 2, read_feat = (\<lambda>video_name f_init duration. Inl (ReadError video_name))\<rparr>"

definition example_network :: "real network" where
  "example_network =
     \<lparr>n_outputs = 2,
      accepts = (\<lambda>shape. tl shape = [2]),
      localization = (\<lambda>x j. Fin (real j - 1)),
      conf = (\<lambda>x j. if j = 0 then Fin (1 / 4) else Fin (3 / 4))\<rparr>"

definition nan_network :: "real network" where
  "nan_network =
     \<lparr>n_outputs = 2,
      accepts = (\<lambda>shape. tl shape = [2]),
      localization = (\<lambda>x j. if j = 0 then NaN else Fin (real j - 1)),
      conf = (\<lambda>x j. if j = 0 then Fin (1 / 4) else Fin (3 / 4))\<rparr>"

definition example_lstm_network :: "real network" where
  "example_lstm_network =
     \<lparr>n_outputs = 2,
      accepts = (\<lambda>shape. tl shape = [3, 2]),
      localization = (\<lambda>x j. Fin (real j - 1)),
      conf = (\<lambda>x j. if j = 0 then Fin (1 / 4) else Fin (3 / 4))\<rparr>"

section \<open>Properties of the window offsets\<close>

lemma ceil_div_pos:
  assumes "0 < b"
  shows "ceil_div a b = (if b dvd a then a div b else a div b + 1)"
proof -
  have "b \<noteq> 0" using assms by simp
  then have "(- a) div b = (if a mod b = 0 then - (a div b) else - (a div b) - 1)"
    by (rule zdiv_zminus1_eq_if)
  then show ?thesis
    by (simp add: ceil_div_def dvd_eq_mod_eq_0)
qed


lemma f_init_array_pos:
  assumes "0 < stride"
  shows "f_init_array l_size T stride =
           Inr (map (\<lambda>i. int i * stride) [0 ..< nat (ceil_div (l_size - T) stride)])"
  using assms by (simp add: f_init_array_def arange_def)

text \<open>
  Claim C1, as it is written: for \<open>L > T\<close> the number of window start offsets is
  \<open>floor((L - T) / stride) + 1\<close>. The code's range is half open, so the offset
  \<open>L - T\<close> itself is never produced: with the default window and stride and a video of
  length 384 there is one window, not two.
\<close>

theorem f_init_array_count_counterexample:
  "(384::int) > 256 \<and> f_init_array 384 256 128 = Inr [0] \<and>
   int (length [0::int]) \<noteq> (384 - 256) div 128 + 1"
  by (simp add: f_init_array_def arange_def ceil_div_def)

text \<open>
  Claim C1, amended: for \<open>L > T\<close> and a positive stride, \<^const>\<open>f_init_array\<close> returns
  \<open>ceil((L - T) / stride)\<close> offsets, that is \<open>floor((L - T) / stride) + 1\<close> when the
  stride does not divide \<open>L - T\<close> and \<open>(L - T) / stride\<close> when it does.
\<close>

theorem f_init_array_count:
  assumes "T < L" and "0 < stride"
  shows "\<exists>xs. f_init_array L T stride = Inr xs \<and>
           int (length xs) =
             (if stride dvd (L - T) then (L - T) div stride else (L - T) div stride + 1)"
proof -
  have pos: "0 \<le> (L - T) div stride"
    using assms by (simp add: pos_imp_zdiv_nonneg_iff)
  have "0 \<le> ceil_div (L - T) stride"
    using pos assms by (simp add: ceil_div_pos)
  then have "int (nat (ceil_div (L - T) stride)) = ceil_div (L - T) stride"
    by simp
  then show ?thesis
    using assms by (simp add: f_init_array_pos ceil_div_pos)
qed

theorem f_init_array_count_witness:
  "(256::int) < 1000 \<and> (0::int) < 128 \<and>
   (\<exists>xs. f_init_array 1000 256 128 = Inr xs \<and> int (length xs) = 6)"
  using f_init_array_count [of 256 1000 128] by simp


section \<open>Properties of the network builder\<close>

lemmas literal_defs =
  py_int_def py_float_def split_sign_def py_strip_def is_space_def is_digit_def
  exponent_def scale10_def digits_val_def lower_def

text \<open>
  Claim C6: for every configuration string whose prefix is neither \<open>mlp:\<close> nor
  \<open>lstm:\<close>, \<^const>\<open>build_model\<close> raises the ValueError of line 68, with the string in
  its message, and returns no layers.
\<close>

theorem build_model_unrecognized:
  assumes "\<not> startswith prm ''mlp:''" and "\<not> startswith prm ''lstm:''"
  shows "build_model (Some prm) input_var input_size grad_clip forget_bias =
           Inl (ValueError (''Unrecognized model type '' @ prm))"
  using assms by (simp add: build_model_def)

theorem build_model_unrecognized_witness:
  "\<not> startswith ''cnn:5,1,4'' ''mlp:'' \<and> \<not> startswith ''cnn:5,1,4'' ''lstm:'' \<and>
   build_model (Some ''cnn:5,1,4'') (None :: unit option) 4096 100 1 =
     Inl (ValueError ''Unrecognized model type cnn:5,1,4'')"
  using build_model_unrecognized [of "''cnn:5,1,4''" "None :: unit option" 4096 100 1]
  by (simp add: startswith_def)

text \<open>
  Claim C7 says that for the configuration \<open>mlp:5,1,4,0.0,0.0\<close> the localization layer
  is a dense layer of 10 units with no bounding nonlinearity. Line 72 passes no
  nonlinearity, so the layer of 10 units has the rectifier: it is not the linear layer,
  and a value of \<open>-3\<close> before the nonlinearity comes out as \<open>0\<close>.
\<close>

theorem build_model_mlp_heads_counterexample:
  "map_sum id fst (build_model (Some ''mlp:5,1,4,0.0,0.0'') (None :: unit option) 4096 100 1) =
     Inr (DenseLayer (build_mlp None 1 4 (Fin 0) drop_hidden_default 4096) 10 (Some Rectify)) \<and>
   map_sum id fst (build_model (Some ''mlp:5,1,4,0.0,0.0'') (None :: unit option) 4096 100 1) \<noteq>
     Inr (DenseLayer (build_mlp None 1 4 (Fin 0) drop_hidden_default 4096) 10 None) \<and>
   apply_nonlinearity (Some Rectify) (- 3) = 0 \<and>
   apply_nonlinearity (Some Rectify) (- 3) \<noteq> apply_nonlinearity None (- 3)"
  by (simp add: build_model_def startswith_def split1_def index1_def output_layers_def
        literal_defs apply_nonlinearity_def)

text \<open>
  Claim C7, amended: for the configuration \<open>mlp:5,1,4,0.0,0.0\<close>, \<^const>\<open>build_model\<close>
  returns a localization layer that is a dense layer of 10 units with the rectifier, so
  its values are bounded below by zero and not bounded above, and a confidence layer
  that is a dense layer of 5 units with the sigmoid, both on the network that
  \<^const>\<open>build_mlp\<close> builds for depth 1 and width 4.
\<close>

theorem build_model_mlp_heads:
  "build_model (Some ''mlp:5,1,4,0.0,0.0'') input_var input_size grad_clip forget_bias =
     Inr (DenseLayer (build_mlp input_var 1 4 (Fin 0) drop_hidden_default input_size) 10
            (Some Rectify),
          DenseLayer (build_mlp input_var 1 4 (Fin 0) drop_hidden_default input_size) 5
            (Some Sigmoid)) \<and>
   apply_nonlinearity (Some Rectify) x = max 0 x \<and>
   apply_nonlinearity (Some Sigmoid) x = 1 / (1 + exp (- x))"
  by (simp add: build_model_def startswith_def split1_def index1_def output_layers_def
        literal_defs apply_nonlinearity_def)

text \<open>
  Claim C2 says that the dropout after each hidden dense layer has the rate \<open>drop_hid\<close>
  of the configuration string and is absent when that rate is zero. The code unpacks
  \<open>drop_hid\<close> and never passes it on: with \<open>drop_hid\<close> equal to \<open>0.0\<close> the hidden layer
  is still followed by a dropout layer, of rate one half, and the configuration with
  \<open>0.9\<close> builds the same layers.
\<close>

theorem build_model_drop_hid_unused:
  "py_float ''0.0'' = Inr (Fin 0) \<and>
   map_sum id fst
     (build_model (Some ''mlp:5,1,4,0.0,0.0'') input_var input_size grad_clip forget_bias) =
     Inr (DenseLayer
            (DropoutLayer
               (DenseLayer (InputLayer [None, Some input_size] input_var) 4 (Some Rectify))
               (Fin (1 / 2)))
            10 (Some Rectify)) \<and>
   build_model (Some ''mlp:5,1,4,0.0,0.9'') input_var input_size grad_clip forget_bias =
     build_model (Some ''mlp:5,1,4,0.0,0.0'') input_var input_size grad_clip forget_bias"
  by (simp add: build_model_def startswith_def split1_def index1_def output_layers_def
        literal_defs build_mlp_def truthy_def drop_hidden_default_def)

section \<open>Properties of the loss\<close>

lemma flog_clip_bounded:
  assumes "0 \<le> x" and "x \<le> 1"
  shows "\<exists>v. flog (fclip (Fin x) EPSILON PosInf) = Fin v \<and> \<bar>v\<bar> \<le> ln (10 ^ 7)"
proof (cases "x < 1 / 10 ^ 7")
  case True
  have "ln (1 / 10 ^ 7 :: real) = - ln (10 ^ 7)"
    by (simp add: ln_div)
  moreover have "0 \<le> ln (10 ^ 7 :: real)" by simp
  ultimately show ?thesis using True by (simp add: fclip_def EPSILON_def)
next
  case False
  then have lo: "1 / 10 ^ 7 \<le> x" by simp
  have "(0::real) < 1 / 10 ^ 7" by simp
  with lo have pos: "0 < x" by linarith
  have "ln (1 / 10 ^ 7) \<le> ln x" using lo pos by (simp del: ln_div)
  moreover have "ln (1 / 10 ^ 7 :: real) = - ln (10 ^ 7)" by (simp add: ln_div)
  moreover have "ln x \<le> 0" using pos assms by simp
  ultimately have "\<bar>ln x\<bar> \<le> ln (10 ^ 7)" by linarith
  then show ?thesis using False pos by (simp add: fclip_def EPSILON_def)
qed

lemma wbce_elem_bounded:
  assumes "is_binary t" and "0 \<le> x" and "x \<le> 1"
  shows "bounded_by ((\<bar>a\<bar> + \<bar>b\<bar>) * ln (10 ^ 7))
           (fneg (fadd (fmul (fmul (Fin b) t) (flog (fclip (Fin x) EPSILON PosInf)))
                       (fmul (fmul (Fin a) (fsub (Fin 1) t))
                             (flog (fclip (fsub (Fin 1) (Fin x)) EPSILON PosInf)))))"
proof -
  define c :: real where "c = ln (10 ^ 7)"
  have c: "0 \<le> c" by (simp add: c_def)
  obtain u where u: "flog (fclip (Fin x) EPSILON PosInf) = Fin u" "\<bar>u\<bar> \<le> c"
    using flog_clip_bounded [OF assms(2,3)] unfolding c_def by blast
  have "0 \<le> 1 - x" "1 - x \<le> 1" using assms by simp_all
  then obtain v where v: "flog (fclip (Fin (1 - x)) EPSILON PosInf) = Fin v" "\<bar>v\<bar> \<le> c"
    using flog_clip_bounded unfolding c_def by blast
  have bu: "\<bar>b * u\<bar> \<le> \<bar>b\<bar> * c"
    using u(2) by (simp add: abs_mult mult_left_mono)
  have av: "\<bar>a * v\<bar> \<le> \<bar>a\<bar> * c"
    using v(2) by (simp add: abs_mult mult_left_mono)
  have nn: "0 \<le> \<bar>a\<bar> * c" "0 \<le> \<bar>b\<bar> * c"
    using c by simp_all
  have split: "(\<bar>a\<bar> + \<bar>b\<bar>) * c = \<bar>a\<bar> * c + \<bar>b\<bar> * c"
    by (simp add: algebra_simps)
  from assms(1) consider "t = Fin 0" | "t = Fin 1" by (auto simp: is_binary_def)
  then have "bounded_by ((\<bar>a\<bar> + \<bar>b\<bar>) * c)
           (fneg (fadd (fmul (fmul (Fin b) t) (flog (fclip (Fin x) EPSILON PosInf)))
                       (fmul (fmul (Fin a) (fsub (Fin 1) t))
                             (flog (fclip (fsub (Fin 1) (Fin x)) EPSILON PosInf)))))"
  proof cases
    case 1
    have "\<bar>a * v\<bar> \<le> (\<bar>a\<bar> + \<bar>b\<bar>) * c" using av nn split by linarith
    then show ?thesis using 1 u(1) v(1)
      by (simp add: bounded_by_def fsub_def)
  next
    case 2
    have "\<bar>b * u\<bar> \<le> (\<bar>a\<bar> + \<bar>b\<bar>) * c" using bu nn split by linarith
    then show ?thesis using 2 u(1) v(1)
      by (simp add: bounded_by_def fsub_def)
  qed
  then show ?thesis by (simp only: c_def)
qed

lemma wbce_bounded_aux:
  assumes "length ps = length ts"
    and "list_all in_unit_interval ps" and "list_all is_binary ts"
  shows "list_all (bounded_by ((\<bar>a\<bar> + \<bar>b\<bar>) * ln (10 ^ 7)))
     (map fneg
        (map2 fadd
           (map2 fmul (map (fmul (Fin b)) ts) (map (\<lambda>p. flog (fclip p EPSILON PosInf)) ps))
           (map2 fmul (map (\<lambda>t. fmul (Fin a) (fsub (Fin 1) t)) ts)
                      (map (\<lambda>p. flog (fclip (fsub (Fin 1) p) EPSILON PosInf)) ps))))"
  using assms
proof (induction ps ts rule: list_induct2)
  case Nil
  then show ?case by simp
next
  case (Cons p ps t ts)
  from Cons.prems obtain x where p: "p = Fin x" "0 \<le> x" "x \<le> 1"
    by (cases p) (auto simp: in_unit_interval_def)
  have "is_binary t" using Cons.prems by simp
  from wbce_elem_bounded [OF this p(2,3), of a b] Cons show ?case
    by (simp add: p)
qed

lemma bounded_by_is_fin: "bounded_by c x \<Longrightarrow> is_fin x"
  by (cases x) (simp_all add: bounded_by_def is_fin_def)

text \<open>
  Claim C5: for predictions in \<open>[0, 1]\<close>, the bounds included, binary targets of the
  same length and finite weights, \<^const>\<open>weigthed_binary_crossentropy\<close> returns a tensor
  of that length whose elements are all finite: the arguments of both logarithms are
  clipped to \<open>[EPSILON, 1]\<close>, so every element is at most \<open>(|w0| + |w1|) * ln (10^7)\<close>
  in absolute value.
\<close>

theorem wbce_finite:
  assumes "length predictions = length targets"
    and "list_all in_unit_interval predictions"
    and "list_all is_binary targets"
  shows "\<exists>loss. weigthed_binary_crossentropy predictions targets (Fin w0) (Fin w1) = Inr loss \<and>
           length loss = length predictions \<and> list_all is_fin loss \<and>
           list_all (bounded_by ((\<bar>w0\<bar> + \<bar>w1\<bar>) * ln (10 ^ 7))) loss"
proof -
  let ?loss = "map fneg
        (map2 fadd
           (map2 fmul (map (fmul (Fin w1)) targets)
                      (map (\<lambda>p. flog (fclip p EPSILON PosInf)) predictions))
           (map2 fmul (map (\<lambda>t. fmul (Fin w0) (fsub (Fin 1) t)) targets)
                      (map (\<lambda>p. flog (fclip (fsub (Fin 1) p) EPSILON PosInf)) predictions)))"
  have eq: "weigthed_binary_crossentropy predictions targets (Fin w0) (Fin w1) = Inr ?loss"
    using assms(1) by (simp add: weigthed_binary_crossentropy_def)
  have len: "length ?loss = length predictions"
    using assms(1) by simp
  have b: "list_all (bounded_by ((\<bar>w0\<bar> + \<bar>w1\<bar>) * ln (10 ^ 7))) ?loss"
    by (rule wbce_bounded_aux [OF assms])
  then have "list_all is_fin ?loss"
    unfolding list_all_iff using bounded_by_is_fin by blast
  with eq len b show ?thesis by blast
qed

theorem wbce_finite_witness:
  "length [Fin 0, Fin 1, Fin (1 / 2)] = length [Fin 1, Fin 0, Fin 1] \<and>
   list_all in_unit_interval [Fin 0, Fin 1, Fin (1 / 2)] \<and>
   list_all is_binary [Fin 1, Fin 0, Fin 1] \<and>
   (\<exists>loss. weigthed_binary_crossentropy [Fin 0, Fin 1, Fin (1 / 2)] [Fin 1, Fin 0, Fin 1]
              (Fin 1) (Fin 2) = Inr loss \<and>
           length loss = length [Fin 0, Fin 1, Fin (1 / 2)] \<and> list_all is_fin loss \<and>
           list_all (bounded_by ((\<bar>1\<bar> + \<bar>2\<bar>) * ln (10 ^ 7))) loss)"
  using wbce_finite [of "[Fin 0, Fin 1, Fin (1 / 2)]" "[Fin 1, Fin 0, Fin 1]" 1 2]
  by (simp add: in_unit_interval_def is_binary_def)


section \<open>Properties of the proposals\<close>

lemma read_batch_length:
  "read_feat_batch_from_video fobj v offs d = Inr xs \<Longrightarrow> length xs = length offs"
  by (induction offs arbitrary: xs) (auto split: sum.splits)

lemma blocks_length:
  "length (concat (map (\<lambda>x. map (h x) [0 ..< n]) xs)) = length xs * n"
  by (induction xs) simp_all

lemma blocks_nth:
  "k < length xs * n \<Longrightarrow>
     concat (map (\<lambda>x. map (h x) [0 ..< n]) xs) ! k = h (xs ! (k div n)) (k mod n)"
proof (induction xs arbitrary: k)
  case Nil
  then show ?case by simp
next
  case (Cons x xs)
  show ?case
  proof (cases "k < n")
    case True
    then show ?thesis by (simp add: nth_append)
  next
    case False
    then have kn: "n \<le> k" by simp
    from Cons.prems have pos: "0 < n" by (cases n) simp_all
    from Cons.prems kn have "k - n < length xs * n" by simp
    from Cons.IH [OF this] kn pos show ?thesis
      by (simp add: nth_append le_div_geq le_mod_geq)
  qed
qed

lemma pairs_append:
  "even (length xs) \<Longrightarrow> pairs (xs @ ys) = pairs xs @ pairs ys"
  by (induction xs rule: pairs.induct) simp_all

lemma pairs_upt:
  "pairs (map f [m ..< m + 2 * n]) = map (\<lambda>j. (f (m + 2 * j), f (m + 2 * j + 1))) [0 ..< n]"
proof (induction n arbitrary: m)
  case 0
  then show ?case by simp
next
  case (Suc n)
  have "[m ..< m + 2 * Suc n] = m # Suc m # [Suc (Suc m) ..< Suc (Suc m) + 2 * n]"
    by (simp add: upt_conv_Cons)
  then have "pairs (map f [m ..< m + 2 * Suc n]) =
      (f m, f (Suc m)) # pairs (map f [Suc (Suc m) ..< Suc (Suc m) + 2 * n])"
    by simp
  also have "\<dots> = (f m, f (Suc m)) #
      map (\<lambda>j. (f (Suc (Suc m) + 2 * j), f (Suc (Suc m) + 2 * j + 1))) [0 ..< n]"
    by (simp only: Suc.IH)
  also have "\<dots> = map (\<lambda>j. (f (m + 2 * j), f (m + 2 * j + 1))) (0 # map Suc [0 ..< n])"
    by (simp add: comp_def)
  also have "0 # map Suc [0 ..< n] = [0 ..< Suc n]"
    by (simp add: map_Suc_upt upt_conv_Cons del: upt_Suc)
  finally show ?case .
qed

lemma pairs_blocks:
  "pairs (concat (map (\<lambda>x. map (g x) [0 ..< 2 * n]) xs)) =
     concat (map (\<lambda>x. map (\<lambda>j. (g x (2 * j), g x (2 * j + 1))) [0 ..< n]) xs)"
proof (induction xs)
  case Nil
  then show ?case by simp
next
  case (Cons x xs)
  have "pairs (map (g x) [0 ..< 2 * n]) = map (\<lambda>j. (g x (2 * j), g x (2 * j + 1))) [0 ..< n]"
    using pairs_upt [of "g x" 0 n] by simp
  then show ?case using Cons.IH by (simp add: pairs_append)
qed

lemma replicate_blocks:
  "concat (map (replicate n) a) = concat (map (\<lambda>x. map (\<lambda>j. x) [0 ..< n]) a)"
  by (simp add: map_replicate_const)

lemma forward_pass_eq:
  assumes "accepts net (length (entries b) # sample_shape b)"
  shows "forward_pass net b =
     Inr (concat (map (\<lambda>x. map (\<lambda>j. (localization net x (2 * j), localization net x (2 * j + 1)))
                              [0 ..< n_outputs net]) (entries b)),
          \<lparr>shape0 = length (entries b), shape1 = n_outputs net,
           rows = map (\<lambda>x. map (conf net x) [0 ..< n_outputs net]) (entries b)\<rparr>)"
  using assms by (simp add: forward_pass_def reshape_pairs_def blocks_length pairs_blocks)

lemma forward_pass_accepts:
  "forward_pass net b = Inr r \<Longrightarrow> accepts net (length (entries b) # sample_shape b)"
  by (simp add: forward_pass_def split: if_splits)

lemma blocks_eq_map:
  "concat (map (\<lambda>x. map (h x) [0 ..< n]) xs) =
     map (\<lambda>k. h (xs ! (k div n)) (k mod n)) [0 ..< length xs * n]"
  by (rule nth_equalityI) (simp_all add: blocks_length blocks_nth)

lemma div_less_blocks: "k < m * n \<Longrightarrow> k div n < (m::nat)"
  by (simp add: less_mult_imp_div_less)

lemma repeat_eq_map:
  "concat (map (replicate n) a) = map (\<lambda>k. a ! (k div n)) [0 ..< length a * n]"
  by (simp only: replicate_blocks blocks_eq_map)

lemma repeat_zeros:
  "concat (map (replicate n) (replicate m (Fin 0))) = map (\<lambda>k. Fin 0) [0 ..< m * n]"
proof -
  have "concat (map (replicate n) (replicate m (Fin 0))) =
          map (\<lambda>k. replicate m (Fin 0) ! (k div n)) [0 ..< m * n]"
    using repeat_eq_map [of n "replicate m (Fin 0)"] by simp
  also have "\<dots> = map (\<lambda>k. Fin 0) [0 ..< m * n]"
    by (rule map_cong) (simp_all add: div_less_blocks)
  finally show ?thesis .
qed

lemma map_array_eq:
  assumes "length f_init = m"
  shows "transpose2 (np_repeat n (map (\<lambda>i. Fin (real_of_int i)) f_init, replicate m (Fin 0))) =
           map (\<lambda>k. (Fin (real_of_int (f_init ! (k div n))), Fin 0)) [0 ..< m * n]"
proof -
  have "concat (map (replicate n) (map (\<lambda>i. Fin (real_of_int i)) f_init)) =
          map (\<lambda>k. map (\<lambda>i. Fin (real_of_int i)) f_init ! (k div n)) [0 ..< m * n]"
    using repeat_eq_map [of n "map (\<lambda>i. Fin (real_of_int i)) f_init"] assms by simp
  also have "\<dots> = map (\<lambda>k. Fin (real_of_int (f_init ! (k div n)))) [0 ..< m * n]"
    by (rule map_cong) (simp_all add: div_less_blocks assms)
  finally have starts: "concat (map (replicate n) (map (\<lambda>i. Fin (real_of_int i)) f_init)) =
          map (\<lambda>k. Fin (real_of_int (f_init ! (k div n)))) [0 ..< m * n]" .
  show ?thesis
    unfolding transpose2_def np_repeat_def fst_conv snd_conv starts repeat_zeros
    by (simp add: zip_map_map zip_same_conv_map)
qed

lemma np_add_maps:
  "np_add (map F [0 ..< N]) (map G [0 ..< N]) = Inr (map (\<lambda>k. add_pair (F k) (G k)) [0 ..< N])"
  by (simp add: np_add_def zip_map_map zip_same_conv_map)

lemma generate_proposals_eq:
  assumes "length f_init = length (entries b)"
    and "accepts net (length (entries b) # sample_shape b)"
  shows "generate_proposals conv net f_init b T =
     Inr (map (\<lambda>k. (\<lambda>(a, b). (astype_int a, astype_int b))
                      (conv (window_coords net f_init (entries b) T k)))
              [0 ..< length (entries b) * n_outputs net],
          map (\<lambda>k. conf net (entries b ! (k div n_outputs net)) (k mod n_outputs net))
              [0 ..< length (entries b) * n_outputs net])"
proof -
  let ?n = "n_outputs net" and ?m = "length (entries b)" and ?feats = "entries b"
  have scaled: "map (\<lambda>(a, b). (fmul (np_clip (Fin 0) (Fin 1) a) (Fin (real_of_int T)),
                                fmul (np_clip (Fin 0) (Fin 1) b) (Fin (real_of_int T))))
        (concat (map (\<lambda>x. map (\<lambda>j. (localization net x (2 * j), localization net x (2 * j + 1)))
                              [0 ..< ?n]) ?feats)) =
      map (\<lambda>k. (fmul (np_clip (Fin 0) (Fin 1) (localization net (?feats ! (k div ?n)) (2 * (k mod ?n))))
                      (Fin (real_of_int T)),
                 fmul (np_clip (Fin 0) (Fin 1)
                         (localization net (?feats ! (k div ?n)) (2 * (k mod ?n) + 1)))
                      (Fin (real_of_int T))))
          [0 ..< ?m * ?n]"
    by (simp add: blocks_eq_map)
  have stack: "np_stack2 (map (\<lambda>i. Fin (real_of_int i)) f_init) (replicate ?m (Fin 0)) =
      Inr (map (\<lambda>i. Fin (real_of_int i)) f_init, replicate ?m (Fin 0))"
    using assms(1) by (simp add: np_stack2_def)
  show ?thesis
    unfolding generate_proposals_def forward_pass_eq [OF assms(2)]
    by (simp add: stack flatten_def scaled map_array_eq [OF assms(1)] np_add_maps blocks_eq_map
          segment_format_def add_pair_def window_coords_def)
qed

lemma lstm_reshape_entries:
  "lstm_reshape model_prm d feats = Inr b \<Longrightarrow> entries b = feats"
  by (auto simp: lstm_reshape_def split: option.splits if_splits sum.splits list.splits)

lemma generate_proposals_accepts:
  "generate_proposals conv net f_init b T = Inr r \<Longrightarrow>
     accepts net (length (entries b) # sample_shape b)"
  by (auto simp: generate_proposals_def forward_pass_def split: if_splits sum.splits)

lemma retrieve_proposals_success:
  assumes "snd (retrieve_proposals conv Feature video_name l_size net T stride c3d_size
                  c3d_stride pool_type hdf5_dataset model_prm) = Inr r"
  shows "\<exists>f_init feats b.
           f_init_array l_size T stride = Inr f_init \<and>
           read_feat_batch_from_video (Feature hdf5_dataset c3d_size c3d_stride pool_type)
             video_name f_init T = Inr feats \<and>
           lstm_reshape model_prm (feat_dim (Feature hdf5_dataset c3d_size c3d_stride pool_type))
             feats = Inr b \<and>
           entries b = feats \<and>
           length feats = length f_init \<and>
           accepts net (length feats # sample_shape b) \<and>
           generate_proposals conv net f_init b T = Inr r"
proof -
  let ?fobj = "Feature hdf5_dataset c3d_size c3d_stride pool_type"
  from assms obtain f_init where f: "f_init_array l_size T stride = Inr f_init"
    by (cases "f_init_array l_size T stride") (simp_all add: retrieve_proposals_def)
  from assms f obtain feats where
    r: "read_feat_batch_from_video ?fobj video_name f_init T = Inr feats"
    by (cases "read_feat_batch_from_video ?fobj video_name f_init T")
       (simp_all add: retrieve_proposals_def)
  from assms f r obtain b where
    l: "lstm_reshape model_prm (feat_dim ?fobj) feats = Inr b"
    by (cases "lstm_reshape model_prm (feat_dim ?fobj) feats")
       (simp_all add: retrieve_proposals_def)
  then have same: "entries b = feats" by (rule lstm_reshape_entries)
  from assms f r l have g: "generate_proposals conv net f_init b T = Inr r"
    by (simp add: retrieve_proposals_def)
  from generate_proposals_accepts [OF g] same
  have acc: "accepts net (length feats # sample_shape b)" by simp
  from f r l same read_batch_length [OF r] acc g show ?thesis by blast
qed

lemma retrieve_proposals_result:
  assumes "snd (retrieve_proposals conv Feature video_name l_size net T stride c3d_size
                  c3d_stride pool_type hdf5_dataset model_prm) = Inr (proposal, score)"
    and "f_init_array l_size T stride = Inr f_init"
    and "read_feat_batch_from_video (Feature hdf5_dataset c3d_size c3d_stride pool_type)
           video_name f_init T = Inr feats"
  shows "length feats = length f_init"
    and "proposal = map (\<lambda>k. (\<lambda>(a, b). (astype_int a, astype_int b))
                                 (conv (window_coords net f_init feats T k)))
                        [0 ..< length f_init * n_outputs net]"
    and "score = map (\<lambda>k. conf net (feats ! (k div n_outputs net)) (k mod n_outputs net))
                     [0 ..< length f_init * n_outputs net]"
proof -
  from retrieve_proposals_success [OF assms(1)] assms(2,3)
  obtain b where len: "length feats = length f_init"
    and e: "entries b = feats"
    and acc: "accepts net (length feats # sample_shape b)"
    and g: "generate_proposals conv net f_init b T = Inr (proposal, score)"
    by auto
  show "length feats = length f_init" by (rule len)
  from g generate_proposals_eq [of f_init b net conv T] len e acc
  show "proposal = map (\<lambda>k. (\<lambda>(a, b). (astype_int a, astype_int b))
                                 (conv (window_coords net f_init feats T k)))
                        [0 ..< length f_init * n_outputs net]"
    and "score = map (\<lambda>k. conf net (feats ! (k div n_outputs net)) (k mod n_outputs net))
                     [0 ..< length f_init * n_outputs net]"
    by simp_all
qed

lemma np_clip_nan: "np_clip (Fin 0) (Fin 1) NaN = NaN"
  by (simp add: np_clip_def fmax_def fmin_def)

lemma np_clip_unit: "x \<noteq> NaN \<Longrightarrow> in_unit_interval (np_clip (Fin 0) (Fin 1) x)"
  by (cases x) (simp_all add: np_clip_def fmax_def fmin_def in_unit_interval_def)

lemma example_offsets: "f_init_array 10 4 4 = Inr [0, 4]"
  by (simp add: f_init_array_def arange_def ceil_div_def upt_conv_Cons)

lemma example_batch:
  "read_feat_batch_from_video (example_feature (Some ''features.hdf5'') 16 8 ''mean'')
     ''v'' [0, 4] 4 = Inr [0, 4]"
  by (simp add: example_feature_def)

lemma example_dim: "feat_dim (example_feature (Some ''features.hdf5'') 16 8 ''mean'') = 2"
  by (simp add: example_feature_def)

lemma example_reshape:
  "lstm_reshape (Some ''mlp:2,1,4,0.0,0.0'') 2 feats = Inr \<lparr>sample_shape = [2], entries = feats\<rparr>"
  by (simp add: lstm_reshape_def startswith_def)

lemma example_forward:
  "forward_pass example_network \<lparr>sample_shape = [2], entries = [0, 4]\<rparr> =
     Inr ([(Fin (- 1), Fin 0), (Fin 1, Fin 2), (Fin (- 1), Fin 0), (Fin 1, Fin 2)],
          \<lparr>shape0 = 2, shape1 = 2,
           rows = [[Fin (1 / 4), Fin (3 / 4)], [Fin (1 / 4), Fin (3 / 4)]]\<rparr>)"
proof -
  have "accepts example_network
          (length (entries \<lparr>sample_shape = [2], entries = [0, 4 :: real]\<rparr>) #
           sample_shape \<lparr>sample_shape = [2], entries = [0, 4 :: real]\<rparr>)"
    by (simp add: example_network_def)
  from forward_pass_eq [OF this] show ?thesis
    by (simp add: example_network_def upt_conv_Cons numeral_2_eq_2)
qed

lemma example_generate:
  "generate_proposals (\<lambda>p. p) example_network [0, 4] \<lparr>sample_shape = [2], entries = [0, 4]\<rparr> 4 =
     Inr ([(Some 0, Some 0), (Some 4, Some 4), (Some 4, Some 0), (Some 8, Some 4)],
          [Fin (1 / 4), Fin (3 / 4), Fin (1 / 4), Fin (3 / 4)])"
  unfolding generate_proposals_def example_forward
  by (simp add: np_stack2_def np_repeat_def transpose2_def np_add_def add_pair_def np_clip_def
        fmax_def fmin_def astype_int_def trunc_def segment_format_def flatten_def
        numeral_2_eq_2)

lemma example_run:
  "retrieve_proposals (\<lambda>p. p) example_feature ''v'' 10 example_network 4 4 16 8 ''mean''
      (Some ''features.hdf5'') (Some ''mlp:2,1,4,0.0,0.0'') =
   ([OpenInstance, ReadBatch ''v'' [0, 4] 4, CloseInstance],
    Inr ([(Some 0, Some 0), (Some 4, Some 4), (Some 4, Some 0), (Some 8, Some 4)],
         [Fin (1 / 4), Fin (3 / 4), Fin (1 / 4), Fin (3 / 4)]))"
  by (simp only: retrieve_proposals_def Let_def example_offsets example_batch example_dim
        example_reshape example_generate sum.case)

lemma nan_forward:
  "forward_pass nan_network \<lparr>sample_shape = [2], entries = [0, 4]\<rparr> =
     Inr ([(NaN, Fin 0), (Fin 1, Fin 2), (NaN, Fin 0), (Fin 1, Fin 2)],
          \<lparr>shape0 = 2, shape1 = 2,
           rows = [[Fin (1 / 4), Fin (3 / 4)], [Fin (1 / 4), Fin (3 / 4)]]\<rparr>)"
proof -
  have "accepts nan_network
          (length (entries \<lparr>sample_shape = [2], entries = [0, 4 :: real]\<rparr>) #
           sample_shape \<lparr>sample_shape = [2], entries = [0, 4 :: real]\<rparr>)"
    by (simp add: nan_network_def)
  from forward_pass_eq [OF this] show ?thesis
    by (simp add: nan_network_def upt_conv_Cons numeral_2_eq_2)
qed

lemma nan_generate:
  "generate_proposals (\<lambda>p. p) nan_network [0, 4] \<lparr>sample_shape = [2], entries = [0, 4]\<rparr> 4 =
     Inr ([(None, Some 0), (Some 4, Some 4), (None, Some 0), (Some 8, Some 4)],
          [Fin (1 / 4), Fin (3 / 4), Fin (1 / 4), Fin (3 / 4)])"
  unfolding generate_proposals_def nan_forward
  by (simp add: np_stack2_def np_repeat_def transpose2_def np_add_def add_pair_def np_clip_def
        fmax_def fmin_def astype_int_def trunc_def segment_format_def flatten_def
        numeral_2_eq_2)

text \<open>
  Claim C3 says that for every video with \<open>L \<le> T\<close> the window offsets are empty and
  \<^const>\<open>retrieve_proposals\<close> returns no proposal and no score. With a negative stride
  the offsets of such a video are not empty. With the default of \<open>model_prm\<close>, which is
  \<open>None\<close>, line 139 raises. With the configuration \<open>lstm:2,3,4,1\<close> and two features
  per window, lines 142 to 144 make a batch of shape \<open>(0, 3, 0)\<close>, which a network for
  sequences of three vectors of two features does not take: the forward pass raises.
\<close>

theorem retrieve_proposals_short_video_counterexample:
  "(3::int) \<le> 4 \<and>
   f_init_array 3 4 (- 1) = Inr [0] \<and>
   retrieve_proposals (\<lambda>p. p) example_feature ''v'' 3 example_network 4 4 16 8 ''mean''
       (Some ''features.hdf5'') None =
     ([OpenInstance, ReadBatch ''v'' [] 4], Inl AttributeError) \<and>
   retrieve_proposals (\<lambda>p. p) example_feature ''v'' 3 example_lstm_network 4 4 16 8 ''mean''
       (Some ''features.hdf5'') (Some ''lstm:2,3,4,1'') =
     ([OpenInstance, ReadBatch ''v'' [] 4, CloseInstance], Inl ShapeError)"
proof -
  have neg: "f_init_array 3 4 (- 1) = Inr [0]"
    by (simp add: f_init_array_def arange_def ceil_div_def)
  have f: "f_init_array 3 4 4 = Inr []"
    by (simp add: f_init_array_def arange_def ceil_div_def)
  have r: "read_feat_batch_from_video (example_feature (Some ''features.hdf5'') 16 8 ''mean'')
             ''v'' [] 4 = Inr []"
    by simp
  have n: "lstm_reshape None 2 ([] :: real list) = Inl AttributeError"
    by (simp add: lstm_reshape_def)
  have 1: "retrieve_proposals (\<lambda>p. p) example_feature ''v'' 3 example_network 4 4 16 8 ''mean''
       (Some ''features.hdf5'') None =
     ([OpenInstance, ReadBatch ''v'' [] 4], Inl AttributeError)"
    by (simp only: retrieve_proposals_def Let_def f r example_dim n sum.case)
  have l: "lstm_reshape (Some ''lstm:2,3,4,1'') 2 ([] :: real list) =
             Inr \<lparr>sample_shape = [3, 0], entries = []\<rparr>"
    by (simp add: lstm_reshape_def startswith_def split1_def index1_def literal_defs
          np_reshape_ok_def)
  have g: "generate_proposals (\<lambda>p. p) example_lstm_network []
             \<lparr>sample_shape = [3, 0], entries = ([] :: real list)\<rparr> 4 = Inl ShapeError"
    by (simp add: generate_proposals_def forward_pass_def example_lstm_network_def)
  have 2: "retrieve_proposals (\<lambda>p. p) example_feature ''v'' 3 example_lstm_network 4 4 16 8
       ''mean'' (Some ''features.hdf5'') (Some ''lstm:2,3,4,1'') =
     ([OpenInstance, ReadBatch ''v'' [] 4, CloseInstance], Inl ShapeError)"
    by (simp only: retrieve_proposals_def Let_def f r example_dim l g sum.case)
  from neg 1 2 show ?thesis by simp
qed

text \<open>
  Claim C3, amended: for a video with \<open>L \<le> T\<close> and a positive stride the window
  offsets are empty; if moreover lines 139 to 144 complete on the empty batch and the
  network takes the batch they give, \<^const>\<open>retrieve_proposals\<close> returns no proposal
  and no score, after opening the store, reading the empty batch and closing the store.
\<close>

theorem retrieve_proposals_short_video:
  fixes Feature :: "string option \<Rightarrow> int \<Rightarrow> int \<Rightarrow> string \<Rightarrow> 'f feature"
    and b :: "'f batch"
  assumes "L \<le> T" and "0 < stride"
    and "lstm_reshape model_prm (feat_dim (Feature hdf5_dataset c3d_size c3d_stride pool_type))
           [] = Inr b"
    and "accepts net (0 # sample_shape b)"
  shows "f_init_array L T stride = Inr [] \<and>
         retrieve_proposals conv Feature video_name L net T stride c3d_size c3d_stride
             pool_type hdf5_dataset model_prm =
           ([OpenInstance, ReadBatch video_name [] T, CloseInstance], Inr ([], []))"
proof -
  have "ceil_div (L - T) stride \<le> 0"
    using assms(1,2) by (simp add: ceil_div_def pos_imp_zdiv_nonneg_iff)
  then have f: "f_init_array L T stride = Inr []"
    using assms(2) by (simp add: f_init_array_pos)
  have e: "entries b = []"
    using assms(3) by (rule lstm_reshape_entries)
  have g: "generate_proposals conv net [] b T = Inr ([], [])"
    using generate_proposals_eq [of "[]" b net conv T] e assms(4) by simp
  show ?thesis
    using f g assms(3) by (simp add: retrieve_proposals_def)
qed

theorem retrieve_proposals_short_video_witness:
  "(3::int) \<le> 4 \<and> (0::int) < 4 \<and>
   lstm_reshape (Some ''mlp:2,1,4,0.0,0.0'')
     (feat_dim (example_feature (Some ''features.hdf5'') 16 8 ''mean'')) ([] :: real list) =
     Inr \<lparr>sample_shape = [2], entries = []\<rparr> \<and>
   accepts example_network (0 # sample_shape \<lparr>sample_shape = [2], entries = ([] :: real list)\<rparr>) \<and>
   f_init_array 3 4 4 = Inr [] \<and>
   retrieve_proposals (\<lambda>p. p) example_feature ''v'' 3 example_network 4 4 16 8 ''mean''
       (Some ''features.hdf5'') (Some ''mlp:2,1,4,0.0,0.0'') =
     ([OpenInstance, ReadBatch ''v'' [] 4, CloseInstance], Inr ([], []))"
proof -
  have l: "lstm_reshape (Some ''mlp:2,1,4,0.0,0.0'')
     (feat_dim (example_feature (Some ''features.hdf5'') 16 8 ''mean'')) ([] :: real list) =
     Inr \<lparr>sample_shape = [2], entries = []\<rparr>"
    by (simp add: example_dim example_reshape)
  have a: "accepts example_network
             (0 # sample_shape \<lparr>sample_shape = [2], entries = ([] :: real list)\<rparr>)"
    by (simp add: example_network_def)
  from retrieve_proposals_short_video [of 3 4 4 "Some ''mlp:2,1,4,0.0,0.0''" example_feature
         "Some ''features.hdf5''" 16 8 "''mean''"
         "\<lparr>sample_shape = [2], entries = []\<rparr>" example_network "\<lambda>p. p" "''v''"] l a
  show ?thesis by simp
qed

text \<open>
  Claim C8: when \<^const>\<open>retrieve_proposals\<close> returns, the proposals and the flat scores
  both have \<open>n_segments * n_proposals\<close> entries, where \<open>n_segments\<close> is the number of
  window offsets and \<open>n_proposals\<close> the number of outputs of the network, and both list
  the pairs of window and proposal in the same order: entry \<open>k\<close> of either belongs to
  window \<open>k div n_proposals\<close> and proposal \<open>k mod n_proposals\<close>.
\<close>

theorem retrieve_proposals_lengths:
  assumes "snd (retrieve_proposals conv Feature video_name l_size net T stride c3d_size
                  c3d_stride pool_type hdf5_dataset model_prm) = Inr (proposal, score)"
  shows "\<exists>f_init feats.
           f_init_array l_size T stride = Inr f_init \<and>
           read_feat_batch_from_video (Feature hdf5_dataset c3d_size c3d_stride pool_type)
             video_name f_init T = Inr feats \<and>
           length feats = length f_init \<and>
           length proposal = length f_init * n_outputs net \<and>
           length score = length f_init * n_outputs net \<and>
           proposal = map (\<lambda>k. (\<lambda>(a, b). (astype_int a, astype_int b))
                                   (conv (window_coords net f_init feats T k)))
                          [0 ..< length f_init * n_outputs net] \<and>
           score = map (\<lambda>k. conf net (feats ! (k div n_outputs net)) (k mod n_outputs net))
                       [0 ..< length f_init * n_outputs net]"
proof -
  from retrieve_proposals_success [OF assms] obtain f_init feats where
    f: "f_init_array l_size T stride = Inr f_init" and
    r: "read_feat_batch_from_video (Feature hdf5_dataset c3d_size c3d_stride pool_type)
             video_name f_init T = Inr feats"
    by blast
  note len = retrieve_proposals_result(1) [OF assms f r]
  note p = retrieve_proposals_result(2) [OF assms f r]
  note s = retrieve_proposals_result(3) [OF assms f r]
  have "length proposal = length f_init * n_outputs net"
    by (subst p) simp
  moreover have "length score = length f_init * n_outputs net"
    by (subst s) simp
  ultimately show ?thesis using f r len p s by blast
qed

theorem retrieve_proposals_lengths_witness:
  "snd (retrieve_proposals (\<lambda>p. p) example_feature ''v'' 10 example_network 4 4 16 8 ''mean''
          (Some ''features.hdf5'') (Some ''mlp:2,1,4,0.0,0.0'')) =
     Inr ([(Some 0, Some 0), (Some 4, Some 4), (Some 4, Some 0), (Some 8, Some 4)],
          [Fin (1 / 4), Fin (3 / 4), Fin (1 / 4), Fin (3 / 4)]) \<and>
   (\<exists>f_init. f_init_array 10 4 4 = Inr f_init \<and>
      length [(Some 0, Some 0), (Some 4, Some 4), (Some 4, Some 0),
              (Some (8 :: int), Some (4 :: int))] =
        length f_init * n_outputs example_network \<and>
      length [Fin (1 / 4), Fin (3 / 4), Fin (1 / 4), Fin (3 / 4)] =
        length f_init * n_outputs example_network)"
proof -
  have run: "snd (retrieve_proposals (\<lambda>p. p) example_feature ''v'' 10 example_network 4 4 16 8
                    ''mean'' (Some ''features.hdf5'') (Some ''mlp:2,1,4,0.0,0.0'')) =
               Inr ([(Some 0, Some 0), (Some 4, Some 4), (Some 4, Some 0), (Some 8, Some 4)],
                    [Fin (1 / 4), Fin (3 / 4), Fin (1 / 4), Fin (3 / 4)])"
    by (simp add: example_run)
  from retrieve_proposals_lengths [OF run] run show ?thesis by auto
qed

text \<open>
  Claim C4 says that every raw localization value is clipped to \<open>[0, 1]\<close> before it
  is multiplied by \<open>T\<close> and added to the window start. The clip of numpy leaves a NaN
  as it is: a raw value that is a NaN is not brought into \<open>[0, 1]\<close>, the coordinate
  made from it is a NaN, and the proposal has no defined integer there.
\<close>

theorem retrieve_proposals_clips_counterexample:
  "localization nan_network 0 0 = NaN \<and>
   np_clip (Fin 0) (Fin 1) (localization nan_network 0 0) = NaN \<and>
   \<not> in_unit_interval (np_clip (Fin 0) (Fin 1) (localization nan_network 0 0)) \<and>
   fadd (Fin 0) (fmul (np_clip (Fin 0) (Fin 1) (localization nan_network 0 0)) (Fin 4)) = NaN \<and>
   retrieve_proposals (\<lambda>p. p) example_feature ''v'' 10 nan_network 4 4 16 8 ''mean''
      (Some ''features.hdf5'') (Some ''mlp:2,1,4,0.0,0.0'') =
   ([OpenInstance, ReadBatch ''v'' [0, 4] 4, CloseInstance],
    Inr ([(None, Some 0), (Some 4, Some 4), (None, Some 0), (Some 8, Some 4)],
         [Fin (1 / 4), Fin (3 / 4), Fin (1 / 4), Fin (3 / 4)]))"
proof -
  have raw: "localization nan_network 0 0 = NaN"
    by (simp add: nan_network_def)
  have run: "retrieve_proposals (\<lambda>p. p) example_feature ''v'' 10 nan_network 4 4 16 8 ''mean''
      (Some ''features.hdf5'') (Some ''mlp:2,1,4,0.0,0.0'') =
   ([OpenInstance, ReadBatch ''v'' [0, 4] 4, CloseInstance],
    Inr ([(None, Some 0), (Some 4, Some 4), (None, Some 0), (Some 8, Some 4)],
         [Fin (1 / 4), Fin (3 / 4), Fin (1 / 4), Fin (3 / 4)]))"
    by (simp only: retrieve_proposals_def Let_def example_offsets example_batch example_dim
          example_reshape nan_generate sum.case)
  show ?thesis
    by (simp add: raw run np_clip_nan in_unit_interval_def)
qed

text \<open>
  Claim C4, amended: every raw localization value that is not a NaN, the infinities
  included, is clipped to \<open>[0, 1]\<close> before it is multiplied by \<open>T\<close> and added to the
  window start; a NaN stays a NaN. For every index \<open>k\<close> of the returned proposals, the
  pair converted and cast into proposal \<open>k\<close> is the window start plus \<open>c1 * T\<close>, and
  zero plus \<open>c2 * T\<close>, where \<open>c1\<close> and \<open>c2\<close> are the clipped raw values of that
  window and proposal; the raw values reach the result in no other way.
\<close>

theorem retrieve_proposals_clips:
  assumes "snd (retrieve_proposals conv Feature video_name l_size net T stride c3d_size
                  c3d_stride pool_type hdf5_dataset model_prm) = Inr (proposal, score)"
    and "f_init_array l_size T stride = Inr f_init"
    and "read_feat_batch_from_video (Feature hdf5_dataset c3d_size c3d_stride pool_type)
           video_name f_init T = Inr feats"
    and "k < length proposal"
  shows "\<exists>raw1 raw2 c1 c2.
           raw1 = localization net (feats ! (k div n_outputs net)) (2 * (k mod n_outputs net)) \<and>
           raw2 = localization net (feats ! (k div n_outputs net))
                    (2 * (k mod n_outputs net) + 1) \<and>
           c1 = np_clip (Fin 0) (Fin 1) raw1 \<and>
           c2 = np_clip (Fin 0) (Fin 1) raw2 \<and>
           (if raw1 = NaN then c1 = NaN else in_unit_interval c1) \<and>
           (if raw2 = NaN then c2 = NaN else in_unit_interval c2) \<and>
           proposal ! k =
             (\<lambda>(a, b). (astype_int a, astype_int b))
               (conv (fadd (Fin (real_of_int (f_init ! (k div n_outputs net))))
                        (fmul c1 (Fin (real_of_int T))),
                      fadd (Fin 0) (fmul c2 (Fin (real_of_int T)))))"
proof -
  note p = retrieve_proposals_result(2) [OF assms(1,2,3)]
  then have "k < length f_init * n_outputs net" using assms(4) by simp
  with p have "proposal ! k =
      (\<lambda>(a, b). (astype_int a, astype_int b)) (conv (window_coords net f_init feats T k))"
    by simp
  then show ?thesis
    by (simp add: window_coords_def np_clip_nan np_clip_unit)
qed

theorem retrieve_proposals_clips_witness:
  "snd (retrieve_proposals (\<lambda>p. p) example_feature ''v'' 10 example_network 4 4 16 8 ''mean''
          (Some ''features.hdf5'') (Some ''mlp:2,1,4,0.0,0.0'')) =
     Inr ([(Some 0, Some 0), (Some 4, Some 4), (Some 4, Some 0), (Some 8, Some 4)],
          [Fin (1 / 4), Fin (3 / 4), Fin (1 / 4), Fin (3 / 4)]) \<and>
   f_init_array 10 4 4 = Inr [0, 4] \<and>
   read_feat_batch_from_video (example_feature (Some ''features.hdf5'') 16 8 ''mean'')
     ''v'' [0, 4] 4 = Inr [0, 4] \<and>
   (3::nat) < length [(Some 0, Some 0), (Some 4, Some 4), (Some 4, Some 0),
                      (Some (8 :: int), Some (4 :: int))] \<and>
   localization example_network ([0, 4] ! (3 div n_outputs example_network))
     (2 * (3 mod n_outputs example_network) + 1) = Fin 2 \<and>
   (\<exists>c1 c2. c1 = Fin 1 \<and> c2 = Fin 1 \<and>
      [(Some 0, Some 0), (Some 4, Some 4), (Some 4, Some 0), (Some (8 :: int), Some (4 :: int))] ! 3 =
        (\<lambda>(a, b). (astype_int a, astype_int b))
          (fadd (Fin (real_of_int ([0, 4] ! 1))) (fmul c1 (Fin (real_of_int 4))),
           fadd (Fin 0) (fmul c2 (Fin (real_of_int 4)))))"
proof -
  have run: "snd (retrieve_proposals (\<lambda>p. p) example_feature ''v'' 10 example_network 4 4 16 8
                    ''mean'' (Some ''features.hdf5'') (Some ''mlp:2,1,4,0.0,0.0'')) =
               Inr ([(Some 0, Some 0), (Some 4, Some 4), (Some 4, Some 0), (Some 8, Some 4)],
                    [Fin (1 / 4), Fin (3 / 4), Fin (1 / 4), Fin (3 / 4)])"
    by (simp add: example_run)
  have k: "(3::nat) < length [(Some 0, Some 0), (Some 4, Some 4), (Some 4, Some 0),
                              (Some (8 :: int), Some (4 :: int))]" by simp
  from retrieve_proposals_clips [OF run example_offsets example_batch k]
  show ?thesis using run example_offsets example_batch
    by (simp add: example_network_def np_clip_def fmax_def fmin_def astype_int_def trunc_def)
qed

text \<open>
  Claim C10: the flat scores and the proposals stay aligned. With \<open>score\<close> the matrix
  and \<open>loc\<close> the pairs that \<^const>\<open>forward_pass\<close> returns and \<open>n_proposals\<close> the second
  axis of \<open>score\<close>, entry \<open>k\<close> of the flat scores is
  \<open>score[k div n_proposals][k mod n_proposals]\<close>, and proposal \<open>k\<close> is made from row
  \<open>k\<close> of \<open>loc\<close> and the window start \<open>f_init_array[k div n_proposals]\<close>, with zero as
  the start of the second coordinate.
\<close>

theorem retrieve_proposals_aligned:
  assumes "snd (retrieve_proposals conv Feature video_name l_size net T stride c3d_size
                  c3d_stride pool_type hdf5_dataset model_prm) = Inr (proposal, score_flat)"
    and "f_init_array l_size T stride = Inr f_init"
    and "read_feat_batch_from_video (Feature hdf5_dataset c3d_size c3d_stride pool_type)
           video_name f_init T = Inr feats"
    and "forward_pass net \<lparr>sample_shape = shape, entries = feats\<rparr> = Inr (loc, score)"
    and "k < length score_flat"
  shows "length proposal = length score_flat \<and>
         k div shape1 score < length f_init \<and>
         k mod shape1 score < shape1 score \<and>
         score_flat ! k = rows score ! (k div shape1 score) ! (k mod shape1 score) \<and>
         proposal ! k =
           (\<lambda>(a, b). (astype_int a, astype_int b))
             (conv (add_pair (Fin (real_of_int (f_init ! (k div shape1 score))), Fin 0)
                      ((\<lambda>(a, b). (fmul (np_clip (Fin 0) (Fin 1) a) (Fin (real_of_int T)),
                                   fmul (np_clip (Fin 0) (Fin 1) b) (Fin (real_of_int T))))
                         (loc ! k))))"
proof -
  let ?n = "n_outputs net"
  note len = retrieve_proposals_result(1) [OF assms(1,2,3)]
  note p = retrieve_proposals_result(2) [OF assms(1,2,3)]
  note s = retrieve_proposals_result(3) [OF assms(1,2,3)]
  from forward_pass_accepts [OF assms(4)]
  have acc: "accepts net (length (entries \<lparr>sample_shape = shape, entries = feats\<rparr>) #
                          sample_shape \<lparr>sample_shape = shape, entries = feats\<rparr>)" .
  from assms(4) forward_pass_eq [OF acc] have sh: "shape1 score = ?n"
    and rs: "rows score = map (\<lambda>x. map (conf net x) [0 ..< ?n]) feats"
    and lc: "loc = concat (map (\<lambda>x. map (\<lambda>j. (localization net x (2 * j),
                                               localization net x (2 * j + 1)))
                                      [0 ..< ?n]) feats)"
    by auto
  from s assms(5) have k: "k < length f_init * ?n" by simp
  then have pos: "0 < ?n" by (cases "?n") simp_all
  from k have i: "k div ?n < length f_init" by (rule div_less_blocks)
  from pos have j: "k mod ?n < ?n" by simp
  have 1: "length proposal = length score_flat" using p s by simp
  have 2: "score_flat ! k = rows score ! (k div ?n) ! (k mod ?n)"
    using s k i j len by (simp add: rs)
  have l: "loc ! k = (localization net (feats ! (k div ?n)) (2 * (k mod ?n)),
                      localization net (feats ! (k div ?n)) (2 * (k mod ?n) + 1))"
    using k len unfolding lc by (simp add: blocks_nth)
  have 3: "proposal ! k =
           (\<lambda>(a, b). (astype_int a, astype_int b))
             (conv (add_pair (Fin (real_of_int (f_init ! (k div ?n))), Fin 0)
                      ((\<lambda>(a, b). (fmul (np_clip (Fin 0) (Fin 1) a) (Fin (real_of_int T)),
                                   fmul (np_clip (Fin 0) (Fin 1) b) (Fin (real_of_int T))))
                         (loc ! k))))"
    using p k by (simp add: l window_coords_def add_pair_def)
  from 1 2 3 i j show ?thesis by (simp add: sh)
qed

theorem retrieve_proposals_aligned_witness:
  "snd (retrieve_proposals (\<lambda>p. p) example_feature ''v'' 10 example_network 4 4 16 8 ''mean''
          (Some ''features.hdf5'') (Some ''mlp:2,1,4,0.0,0.0'')) =
     Inr ([(Some 0, Some 0), (Some 4, Some 4), (Some 4, Some 0), (Some 8, Some 4)],
          [Fin (1 / 4), Fin (3 / 4), Fin (1 / 4), Fin (3 / 4)]) \<and>
   f_init_array 10 4 4 = Inr [0, 4] \<and>
   read_feat_batch_from_video (example_feature (Some ''features.hdf5'') 16 8 ''mean'')
     ''v'' [0, 4] 4 = Inr [0, 4] \<and>
   forward_pass example_network \<lparr>sample_shape = [2], entries = [0, 4]\<rparr> =
     Inr ([(Fin (- 1), Fin 0), (Fin 1, Fin 2), (Fin (- 1), Fin 0), (Fin 1, Fin 2)],
          \<lparr>shape0 = 2, shape1 = 2,
           rows = [[Fin (1 / 4), Fin (3 / 4)], [Fin (1 / 4), Fin (3 / 4)]]\<rparr>) \<and>
   (3::nat) < length [Fin (1 / 4), Fin (3 / 4), Fin (1 / 4), Fin (3 / 4)] \<and>
   [Fin (1 / 4), Fin (3 / 4), Fin (1 / 4), Fin (3 / 4)] ! 3 =
     [[Fin (1 / 4), Fin (3 / 4)], [Fin (1 / 4), Fin (3 / 4)]] ! 1 ! 1 \<and>
   [(Some 0, Some 0), (Some 4, Some 4), (Some 4, Some 0), (Some (8 :: int), Some (4 :: int))] ! 3 =
     (\<lambda>(a, b). (astype_int a, astype_int b))
       (add_pair (Fin (real_of_int ([0, 4] ! 1)), Fin 0)
          ((\<lambda>(a, b). (fmul (np_clip (Fin 0) (Fin 1) a) (Fin (real_of_int 4)),
                       fmul (np_clip (Fin 0) (Fin 1) b) (Fin (real_of_int 4))))
             ([(Fin (- 1), Fin 0), (Fin 1, Fin 2), (Fin (- 1), Fin 0), (Fin 1, Fin 2)] ! 3)))"
proof -
  have run: "snd (retrieve_proposals (\<lambda>p. p) example_feature ''v'' 10 example_network 4 4 16 8
                    ''mean'' (Some ''features.hdf5'') (Some ''mlp:2,1,4,0.0,0.0'')) =
               Inr ([(Some 0, Some 0), (Some 4, Some 4), (Some 4, Some 0), (Some 8, Some 4)],
                    [Fin (1 / 4), Fin (3 / 4), Fin (1 / 4), Fin (3 / 4)])"
    by (simp add: example_run)
  have k: "(3::nat) < length [Fin (1 / 4), Fin (3 / 4), Fin (1 / 4), Fin (3 / 4)]" by simp
  from retrieve_proposals_aligned [OF run example_offsets example_batch example_forward k]
  show ?thesis using run example_offsets example_batch example_forward
    by simp
qed

text \<open>
  Claim C9 says that the handle opened at the start is closed before the function
  finishes on every path, also when the read or the reshape raises. The module closes
  the handle on line 147 only, after the read and the reshape, and has no handler around
  them: a reshape that does not fit, or a read that raises, leaves the function with the
  handle open.
\<close>

theorem retrieve_proposals_handle_counterexample:
  "retrieve_proposals (\<lambda>p. p) example_feature ''v'' 10 example_network 4 4 16 8 ''mean''
       (Some ''features.hdf5'') (Some ''lstm:2,3,4,1'') =
     ([OpenInstance, ReadBatch ''v'' [0, 4] 4], Inl ShapeError) \<and>
   retrieve_proposals (\<lambda>p. p) failing_feature ''v'' 10 example_network 4 4 16 8 ''mean''
       (Some ''features.hdf5'') (Some ''mlp:2,1,4,0.0,0.0'') =
     ([OpenInstance, ReadBatch ''v'' [0, 4] 4], Inl (ReadError ''v'')) \<and>
   handle_open [OpenInstance, ReadBatch ''v'' [0, 4] 4]"
proof -
  have l: "lstm_reshape (Some ''lstm:2,3,4,1'') 2 [0, 4 :: real] = Inl ShapeError"
    by (simp add: lstm_reshape_def startswith_def split1_def index1_def literal_defs
          np_reshape_ok_def)
  have 1: "retrieve_proposals (\<lambda>p. p) example_feature ''v'' 10 example_network 4 4 16 8 ''mean''
       (Some ''features.hdf5'') (Some ''lstm:2,3,4,1'') =
     ([OpenInstance, ReadBatch ''v'' [0, 4] 4], Inl ShapeError)"
    by (simp only: retrieve_proposals_def Let_def example_offsets example_batch example_dim l
          sum.case)
  have r: "read_feat_batch_from_video (failing_feature (Some ''features.hdf5'') 16 8 ''mean'')
             ''v'' [0, 4] 4 = Inl (ReadError ''v'')"
    by (simp add: failing_feature_def)
  have 2: "retrieve_proposals (\<lambda>p. p) failing_feature ''v'' 10 example_network 4 4 16 8 ''mean''
       (Some ''features.hdf5'') (Some ''mlp:2,1,4,0.0,0.0'') =
     ([OpenInstance, ReadBatch ''v'' [0, 4] 4], Inl (ReadError ''v''))"
    by (simp only: retrieve_proposals_def Let_def example_offsets r sum.case)
  have 3: "handle_open [OpenInstance, ReadBatch ''v'' [0, 4] 4]"
    by (simp add: handle_open_def)
  from 1 2 3 show ?thesis by simp
qed

text \<open>
  Claim C9, amended: at the end of \<^const>\<open>retrieve_proposals\<close> the handle is closed
  exactly when the window offsets, the batched read and the reshape step all complete
  without raising; if one of them raises, the function is left with the handle open. In
  particular the handle is closed whenever the function returns.
\<close>

theorem retrieve_proposals_handle:
  "(handle_open (fst (retrieve_proposals conv Feature video_name l_size net T stride c3d_size
                        c3d_stride pool_type hdf5_dataset model_prm)) =
      (case f_init_array l_size T stride of
         Inl e \<Rightarrow> True
       | Inr f_init \<Rightarrow>
           (case read_feat_batch_from_video (Feature hdf5_dataset c3d_size c3d_stride pool_type)
                   video_name f_init T of
              Inl e \<Rightarrow> True
            | Inr feats \<Rightarrow>
                isl (lstm_reshape model_prm
                       (feat_dim (Feature hdf5_dataset c3d_size c3d_stride pool_type)) feats)))) \<and>
   (\<not> isl (snd (retrieve_proposals conv Feature video_name l_size net T stride c3d_size
                   c3d_stride pool_type hdf5_dataset model_prm)) \<longrightarrow>
      \<not> handle_open (fst (retrieve_proposals conv Feature video_name l_size net T stride
                             c3d_size c3d_stride pool_type hdf5_dataset model_prm)))"
  by (simp add: retrieve_proposals_def handle_open_def split: sum.splits)

theorem retrieve_proposals_handle_witness:
  "\<not> isl (snd (retrieve_proposals (\<lambda>p. p) example_feature ''v'' 10 example_network 4 4 16 8
                 ''mean'' (Some ''features.hdf5'') (Some ''mlp:2,1,4,0.0,0.0''))) \<and>
   \<not> handle_open (fst (retrieve_proposals (\<lambda>p. p) example_feature ''v'' 10 example_network
                          4 4 16 8 ''mean'' (Some ''features.hdf5'')
                          (Some ''mlp:2,1,4,0.0,0.0'')))"
  using retrieve_proposals_handle [of "\<lambda>p. p" example_feature "''v''" 10 example_network 4 4
          16 8 "''mean''" "Some ''features.hdf5''" "Some ''mlp:2,1,4,0.0,0.0''",
          THEN conjunct2]
  by (simp add: example_run)


end
